theory Spec2Isabelle
  imports Complex_Main "HOL-Library.AList" "HOL-Library.Option_ord" "HOL-Library.Product_Lexorder"
begin

section \<open>Data model\<close>

text \<open>
  The backend keeps one document collection per lodging type (models \<open>Hotel\<close>,
  \<open>Cabana\<close>, \<open>Airbnb\<close>).  The three route files -- backend/routes/hotelRoutes.js,
  the cabin routes (unnamed/part_004) and the rental routes (unnamed/part_002, after
  the media-host configuration) -- repeat the same handlers; where the copies differ
  the model takes the lodging type as an argument and branches on it.  The rental
  controller is unnamed/part_005.
\<close>

datatype recurso = Hotel | Cabana | Airbnb

text \<open>Values of a request body and of the free-form content fields of a document.\<close>

datatype jsval =
    JUndefined
  | JNull
  | JBool bool
  | JNum rat
  | JStr string
  | JArr "jsval list"
  | JObj "(string \<times> jsval) list"

text \<open>JavaScript truthiness, as used by \<open>if (updateData.precio)\<close> and friends.\<close>

fun truthy :: "jsval \<Rightarrow> bool" where
  "truthy JUndefined = False"
| "truthy JNull = False"
| "truthy (JBool b) = b"
| "truthy (JNum r) = (r \<noteq> 0)"
| "truthy (JStr s) = (s \<noteq> [])"
| "truthy (JArr xs) = True"
| "truthy (JObj kvs) = True"

text \<open>
  \<open>req.user\<close>, as the authentication middleware attaches it.  The middleware itself
  (\<open>protect\<close>, \<open>restrictTo\<close>) is not among the sources; the handlers are modelled
  from the point where it has let the request through.
\<close>

record usuario =
  uid :: string
  email :: string
  isSuperAdmin :: bool
  role :: string

text \<open>
  A stored listing.  The fields the handlers read or write by name are typed as the
  schema types them (\<open>_id\<close>, \<open>propietario\<close>, \<open>activo\<close>, \<open>imagenes\<close>); every other
  path (\<open>nombre\<close>, \<open>ubicacion\<close>, \<open>precioPorNoche\<close>, \<open>updatedAt\<close>,
  \<open>ultimaModificacion\<close>, ...) lives in \<open>campos\<close>, an object with insertion order.
  \<open>imagenes = None\<close> is a document without the array (the handlers test
  \<open>!hotel.imagenes\<close>).
\<close>

record documento =
  oid :: string
  propietario :: string
  activo :: bool
  imagenes :: "string list option"
  campos :: "(string \<times> jsval) list"

type_synonym coleccion = "documento list"

text \<open>Operators of the listing filter; the operand is the raw query-string value.\<close>

datatype filtro = Regex string | Gte string | Lte string | Igual string

datatype condicion =
    PorId string
  | PorPropietario string
  | PorActivo bool
  | Contenido string filtro

text \<open>
  The collaborators that are not part of the repository's own logic are parameters:
  \<^item> \<open>castea\<close>: whether the database driver accepts a string as an object id
    (a malformed id makes the query throw);
  \<^item> \<open>valida\<close>: the schema validators run when a document is saved or updated;
  \<^item> \<open>destroy\<close>: the media host; \<open>False\<close> is a rejected deletion (the promise throws);
  \<^item> \<open>json_parse\<close>: \<open>JSON.parse\<close>, \<open>None\<close> for a syntax error;
  \<^item> \<open>filtro_ok\<close>, \<open>motor\<close>: whether a content condition can be built and cast, and
    whether a document satisfies it;
  \<^item> \<open>ahora\<close>: the clock read by \<open>new Date()\<close>.
\<close>

record entorno =
  castea :: "string \<Rightarrow> bool"
  valida :: "documento \<Rightarrow> bool"
  destroy :: "string \<Rightarrow> bool"
  json_parse :: "string \<Rightarrow> jsval option"
  filtro_ok :: "string \<Rightarrow> filtro \<Rightarrow> bool"
  motor :: "string \<Rightarrow> filtro \<Rightarrow> documento \<Rightarrow> bool"
  ahora :: rat

text \<open>
  Failure responses: the HTTP status and which \<open>return res.status(..)\<close> produced it.
  A success is the right injection with the payload of the response.
\<close>

datatype motivo =
    NoEncontrado
  | SinImagenes
  | IndiceInvalido
  | ImagenNoEncontrada
  | SinArchivos
  | SinPermiso
  | ErrorServidor
  | ErrorPeticion

type_synonym fallo = "nat \<times> motivo"

section \<open>The document store\<close>

datatype 'a consulta = Lanza | Hallado 'a

fun lanza :: "entorno \<Rightarrow> condicion \<Rightarrow> bool" where
  "lanza env (PorId i) = (\<not> castea env i)"
| "lanza env (PorPropietario p) = (\<not> castea env p)"
| "lanza env (PorActivo b) = False"
| "lanza env (Contenido ruta f) = (\<not> filtro_ok env ruta f)"

fun cumple :: "entorno \<Rightarrow> condicion \<Rightarrow> documento \<Rightarrow> bool" where
  "cumple env (PorId i) d = (oid d = i)"
| "cumple env (PorPropietario p) d = (propietario d = p)"
| "cumple env (PorActivo b) d = (activo d = b)"
| "cumple env (Contenido ruta f) d = motor env ruta f d"

definition find_docs :: "entorno \<Rightarrow> condicion list \<Rightarrow> coleccion \<Rightarrow> documento list consulta" where
  "find_docs env cs col =
     (if list_ex (lanza env) cs then Lanza
      else Hallado (filter (\<lambda>d. list_all (\<lambda>c. cumple env c d) cs) col))"

definition findOne :: "entorno \<Rightarrow> condicion list \<Rightarrow> coleccion \<Rightarrow> documento option consulta" where
  "findOne env cs col =
     (case find_docs env cs col of
        Lanza \<Rightarrow> Lanza
      | Hallado ds \<Rightarrow> Hallado (case ds of [] \<Rightarrow> None | d # _ \<Rightarrow> Some d))"

definition findById :: "entorno \<Rightarrow> string \<Rightarrow> coleccion \<Rightarrow> documento option consulta" where
  "findById env i col = findOne env [PorId i] col"

text \<open>\<open>doc.save()\<close>: validation may throw (\<open>None\<close>); otherwise the stored copy is replaced.\<close>

definition reemplazar :: "documento \<Rightarrow> coleccion \<Rightarrow> coleccion" where
  "reemplazar d col = map (\<lambda>x. if oid x = oid d then d else x) col"

definition save :: "entorno \<Rightarrow> documento \<Rightarrow> coleccion \<Rightarrow> coleccion option" where
  "save env d col = (if valida env d then Some (reemplazar d col) else None)"

section \<open>Image list manager (the three route files)\<close>

text \<open>
  The index is the integer \<open>parseInt\<close> returned for the request parameter; a
  parameter that does not parse to a number is outside this model.
  \<open>elemento\<close> is \<open>xs[i]\<close>: \<open>None\<close> stands for \<open>undefined\<close>.
\<close>

definition elemento :: "'a list \<Rightarrow> int \<Rightarrow> 'a option" where
  "elemento xs i = (if 0 \<le> i \<and> i < int (length xs) then Some (xs ! nat i) else None)"

text \<open>
  \<open>Array.prototype.splice(start, deleteCount)\<close> without inserted items: a negative start
  counts from the end, the start is clamped to the array, and the count to what is left.
  Returns the removed elements and the array that remains.
\<close>

definition splice_js :: "int \<Rightarrow> nat \<Rightarrow> 'a list \<Rightarrow> 'a list \<times> 'a list" where
  "splice_js start deleteCount xs =
     (let len = int (length xs);
          actualStart = nat (if start < 0 then max (len + start) 0 else min start len);
          dc = min deleteCount (length xs - actualStart)
      in (take dc (drop actualStart xs), take actualStart xs @ drop (actualStart + dc) xs))"

text \<open>The three image routes load the record with the same filter.\<close>

definition cargar_propio :: "entorno \<Rightarrow> usuario \<Rightarrow> string \<Rightarrow> coleccion \<Rightarrow> documento option consulta" where
  "cargar_propio env u i col = findOne env [PorId i, PorPropietario (uid u), PorActivo True] col"

text \<open>
  The guards between loading the record and touching the list; past them the handler
  holds the array.  Hotels and cabins test the length and the bounds; the rental route
  tests \<open>!alojamiento.imagenes[index]\<close>.  The cabin's set-main route answers an invalid
  index with 400, every other one with 404.
\<close>

definition guardas_indice :: "recurso \<Rightarrow> nat \<Rightarrow> string list option \<Rightarrow> int \<Rightarrow> fallo + string list" where
  "guardas_indice t codigo imgs index =
     (case t of
        Airbnb \<Rightarrow>
          (case imgs of
             None \<Rightarrow> Inl (404, ImagenNoEncontrada)
           | Some xs \<Rightarrow>
               (case elemento xs index of
                  None \<Rightarrow> Inl (404, ImagenNoEncontrada)
                | Some s \<Rightarrow> if s = [] then Inl (404, ImagenNoEncontrada) else Inr xs))
      | _ \<Rightarrow>
          (case imgs of
             None \<Rightarrow> Inl (404, SinImagenes)
           | Some xs \<Rightarrow>
               if length xs = 0 then Inl (404, SinImagenes)
               else if index < 0 \<or> index \<ge> int (length xs) then Inl (codigo, IndiceInvalido)
               else Inr xs))"

text \<open>\<open>imagenAEliminar.split('/').pop().split('.')[0]\<close> and the folder of each type.\<close>

definition public_id :: "string \<Rightarrow> string" where
  "public_id url =
     takeWhile (\<lambda>c. c \<noteq> CHR ''.'') (rev (takeWhile (\<lambda>c. c \<noteq> CHR ''/'') (rev url)))"

fun carpeta :: "recurso \<Rightarrow> string" where
  "carpeta Hotel = ''turismo-app/hoteles''"
| "carpeta Cabana = ''turismo-app/cabanas''"
| "carpeta Airbnb = ''turismo-app/airbnb''"

text \<open>What the inner \<open>try\<close> block leaves on the console.\<close>

datatype nube = Eliminada string | Aviso string

definition borrar_en_nube :: "recurso \<Rightarrow> entorno \<Rightarrow> string \<Rightarrow> nube" where
  "borrar_en_nube t env url =
     (let fullPublicId = carpeta t @ ''/'' @ public_id url
      in if destroy env fullPublicId then Eliminada fullPublicId else Aviso fullPublicId)"

definition sellar :: "entorno \<Rightarrow> documento \<Rightarrow> documento" where
  "sellar env d = d\<lparr>campos := AList.update ''updatedAt'' (JNum (ahora env)) (campos d)\<rparr>"

text \<open>
  \<open>POST /:id/images/upload\<close> (\<open>/:id/upload-images\<close> for rentals).  \<open>archivos\<close> is
  \<open>req.files\<close> mapped to the paths the media host returned.  Payload: total number of
  images and the new references.
\<close>

definition upload_images ::
  "entorno \<Rightarrow> usuario \<Rightarrow> string \<Rightarrow> string list option \<Rightarrow> coleccion
     \<Rightarrow> (fallo + nat \<times> string list) \<times> coleccion" where
  "upload_images env u i archivos col =
     (case archivos of
        None \<Rightarrow> (Inl (400, SinArchivos), col)
      | Some nuevas \<Rightarrow>
          if length nuevas = 0 then (Inl (400, SinArchivos), col)
          else
            (case cargar_propio env u i col of
               Lanza \<Rightarrow> (Inl (500, ErrorServidor), col)
             | Hallado None \<Rightarrow> (Inl (404, NoEncontrado), col)
             | Hallado (Some h) \<Rightarrow>
                 (let previas = (case imagenes h of None \<Rightarrow> [] | Some xs \<Rightarrow> xs);
                      h' = sellar env (h\<lparr>imagenes := Some (previas @ nuevas)\<rparr>)
                  in case save env h' col of
                       None \<Rightarrow> (Inl (500, ErrorServidor), col)
                     | Some col' \<Rightarrow> (Inr (length (previas @ nuevas), nuevas), col'))))"

text \<open>
  \<open>DELETE /:id/images/:index\<close>.  Payload: the removed reference and how many remain.
  The third component is the console trace of the media-host call (empty when the
  handler returned before reaching it).  The read \<open>imagenes[index]\<close> comes after the
  guards, which leave the index within the array.
\<close>

definition delete_image ::
  "recurso \<Rightarrow> entorno \<Rightarrow> usuario \<Rightarrow> string \<Rightarrow> int \<Rightarrow> coleccion
     \<Rightarrow> (fallo + string \<times> nat) \<times> coleccion \<times> nube list" where
  "delete_image t env u i index col =
     (case cargar_propio env u i col of
        Lanza \<Rightarrow> (Inl (500, ErrorServidor), col, [])
      | Hallado None \<Rightarrow> (Inl (404, NoEncontrado), col, [])
      | Hallado (Some h) \<Rightarrow>
          (case guardas_indice t 404 (imagenes h) index of
             Inl f \<Rightarrow> (Inl f, col, [])
           | Inr xs \<Rightarrow>
               (let imagenAEliminar = xs ! nat index;
                    traza = [borrar_en_nube t env imagenAEliminar];
                    restantes = snd (splice_js index 1 xs);
                    h' = sellar env (h\<lparr>imagenes := Some restantes\<rparr>)
                in case save env h' col of
                     None \<Rightarrow> (Inl (500, ErrorServidor), col, traza)
                   | Some col' \<Rightarrow> (Inr (imagenAEliminar, length restantes), col', traza))))"

text \<open>
  \<open>PATCH /:id/images/set-main\<close>.  Payload: the primary image.  Hotels and rentals take
  the promoted image from what \<open>splice\<close> returns, cabins read it before splicing.
\<close>

definition promover :: "recurso \<Rightarrow> int \<Rightarrow> string list \<Rightarrow> string \<times> string list" where
  "promover t index xs =
     (case t of
        Cabana \<Rightarrow>
          (let selectedImage = xs ! nat index
           in (selectedImage, selectedImage # snd (splice_js index 1 xs)))
      | _ \<Rightarrow>
          (let imagenPrincipal = hd (fst (splice_js index 1 xs))
           in (imagenPrincipal, imagenPrincipal # snd (splice_js index 1 xs))))"

definition set_main ::
  "recurso \<Rightarrow> entorno \<Rightarrow> usuario \<Rightarrow> string \<Rightarrow> int \<Rightarrow> coleccion
     \<Rightarrow> (fallo + string) \<times> coleccion" where
  "set_main t env u i index col =
     (case cargar_propio env u i col of
        Lanza \<Rightarrow> (Inl (500, ErrorServidor), col)
      | Hallado None \<Rightarrow> (Inl (404, NoEncontrado), col)
      | Hallado (Some h) \<Rightarrow>
          (case guardas_indice t (if t = Cabana then 400 else 404) (imagenes h) index of
             Inl f \<Rightarrow> (Inl f, col)
           | Inr xs \<Rightarrow>
               if index = 0 then (Inr (xs ! 0), col)
               else
                 (case promover t index xs of
                    (imagenPrincipal, ys) \<Rightarrow>
                      (case save env (sellar env (h\<lparr>imagenes := Some ys\<rparr>)) col of
                         None \<Rightarrow> (Inl (500, ErrorServidor), col)
                       | Some col' \<Rightarrow> (Inr imagenPrincipal, col')))))"

section \<open>Activation toggle (the three route files)\<close>

text \<open>The privileged-identity test of \<open>PATCH /:id/toggle-status\<close>, per route file.\<close>

fun isSuperAdmin_toggle :: "recurso \<Rightarrow> usuario \<Rightarrow> bool" where
  "isSuperAdmin_toggle Hotel u =
     (email u = ''direcciondeturismojalpan@gmail.com'' \<or>
      isSuperAdmin u \<or>
      role u = ''super-admin'')"
| "isSuperAdmin_toggle Cabana u =
     (email u = ''superadmin@turismo.com'' \<or>
      email u = ''direcciondeturismojalpan@gmail.com'' \<or>
      isSuperAdmin u \<or>
      role u = ''super-admin'')"
| "isSuperAdmin_toggle Airbnb u =
     (email u = ''superadmin@turismo.com'' \<or>
      email u = ''direcciondeturismojalpan@gmail.com'' \<or>
      isSuperAdmin u \<or>
      role u = ''super-admin'')"

definition auditoria_toggle :: "entorno \<Rightarrow> usuario \<Rightarrow> bool \<Rightarrow> jsval" where
  "auditoria_toggle env u act =
     JObj [(''usuario'', JStr (uid u)),
           (''fecha'', JNum (ahora env)),
           (''accion'', JStr (if act then ''activado'' else ''bloqueado'')),
           (''motivo'', JStr ''Cambio de estado por super administrador'')]"

definition toggle_status ::
  "recurso \<Rightarrow> entorno \<Rightarrow> usuario \<Rightarrow> string \<Rightarrow> coleccion \<Rightarrow> (fallo + documento) \<times> coleccion" where
  "toggle_status t env u i col =
     (if \<not> isSuperAdmin_toggle t u then (Inl (403, SinPermiso), col)
      else
        (case findById env i col of
           Lanza \<Rightarrow> (Inl (400, ErrorPeticion), col)
         | Hallado None \<Rightarrow> (Inl (404, NoEncontrado), col)
         | Hallado (Some h) \<Rightarrow>
             (let h1 = h\<lparr>activo := \<not> activo h\<rparr>;
                  h2 = h1\<lparr>campos := AList.update ''ultimaModificacion''
                                      (auditoria_toggle env u (activo h1)) (campos h1)\<rparr>
              in case save env h2 col of
                   None \<Rightarrow> (Inl (400, ErrorPeticion), col)
                 | Some col' \<Rightarrow> (Inr h2, col'))))"

section \<open>Listing service (the rental controller)\<close>

text \<open>The privileged-identity test the controller repeats in every handler.\<close>

definition isSuperAdmin_controller :: "usuario \<Rightarrow> bool" where
  "isSuperAdmin_controller u =
     (email u = ''direcciondeturismojalpan@gmail.com'' \<or> isSuperAdmin u)"

text \<open>\<open>req.query\<close> of the public listing.\<close>

record query =
  ciudad :: "string option"
  precioMin :: "string option"
  precioMax :: "string option"
  huespedes :: "string option"
  tipo :: "string option"

text \<open>\<open>if (req.query.x) filters[..] = ..\<close>: a missing or empty parameter adds nothing.\<close>

definition cond_si :: "string option \<Rightarrow> (string \<Rightarrow> condicion) \<Rightarrow> condicion list" where
  "cond_si q f = (case q of None \<Rightarrow> [] | Some s \<Rightarrow> if s = [] then [] else [f s])"

definition filters :: "usuario option \<Rightarrow> query \<Rightarrow> condicion list" where
  "filters usr q =
     (if (case usr of None \<Rightarrow> False | Some u \<Rightarrow> isSuperAdmin_controller u) then []
      else
        [PorActivo True]
        @ cond_si (ciudad q) (\<lambda>s. Contenido ''ubicacion.ciudad'' (Regex s))
        @ cond_si (precioMin q) (\<lambda>s. Contenido ''precioPorNoche'' (Gte s))
        @ cond_si (precioMax q) (\<lambda>s. Contenido ''precioPorNoche'' (Lte s))
        @ cond_si (huespedes q) (\<lambda>s. Contenido ''capacidad.huespedes'' (Gte s))
        @ cond_si (tipo q) (\<lambda>s. Contenido ''tipoPropiedad'' (Igual s)))"

text \<open>
  Sort keys.  A path that is missing or not a number sorts as the smallest value, so it
  comes last in a descending sort.  The reads return the stored documents;
  \<open>populate\<close>, which decorates the owner reference with fields of the user
  collection, is not modelled.
\<close>

definition numero :: "jsval option \<Rightarrow> rat option" where
  "numero v = (case v of Some (JNum r) \<Rightarrow> Some r | _ \<Rightarrow> None)"

definition calificacion_promedio :: "documento \<Rightarrow> rat option" where
  "calificacion_promedio d =
     (case map_of (campos d) ''calificacion'' of
        Some (JObj kvs) \<Rightarrow> numero (map_of kvs ''promedio'')
      | _ \<Rightarrow> None)"

definition sort_desc :: "(documento \<Rightarrow> 'k::linorder) \<Rightarrow> documento list \<Rightarrow> documento list" where
  "sort_desc clave ds = rev (sort_key clave ds)"

definition getAllAirbnb ::
  "entorno \<Rightarrow> usuario option \<Rightarrow> query \<Rightarrow> coleccion \<Rightarrow> fallo + documento list" where
  "getAllAirbnb env usr q col =
     (case find_docs env (filters usr q) col of
        Lanza \<Rightarrow> Inl (400, ErrorPeticion)
      | Hallado ds \<Rightarrow>
          Inr (sort_desc (\<lambda>d. (calificacion_promedio d, numero (map_of (campos d) ''updatedAt''))) ds))"

text \<open>
  The listing as routed.  \<open>router.get('/', airbnbController.getAllAirbnb)\<close>
  (part_002 line 83) is registered before \<open>router.use(authMiddleware.protect)\<close>
  (line 86), and server.js mounts the router with nothing in front of it that
  identifies the caller.  So whoever sends the request, the handler runs with
  \<open>req.user\<close> undefined.
\<close>

definition ruta_listado ::
  "entorno \<Rightarrow> usuario option \<Rightarrow> query \<Rightarrow> coleccion \<Rightarrow> fallo + documento list" where
  "ruta_listado env llamante q col = getAllAirbnb env None q col"

definition getAirbnb :: "entorno \<Rightarrow> string \<Rightarrow> coleccion \<Rightarrow> fallo + documento" where
  "getAirbnb env i col =
     (case findById env i col of
        Lanza \<Rightarrow> Inl (400, ErrorPeticion)
      | Hallado None \<Rightarrow> Inl (404, NoEncontrado)
      | Hallado (Some alojamiento) \<Rightarrow> Inr alojamiento)"

definition getMisAirbnb :: "entorno \<Rightarrow> usuario \<Rightarrow> coleccion \<Rightarrow> fallo + documento list" where
  "getMisAirbnb env u col =
     (case find_docs env (if isSuperAdmin_controller u then [] else [PorPropietario (uid u)]) col of
        Lanza \<Rightarrow> Inl (400, ErrorPeticion)
      | Hallado ds \<Rightarrow> Inr (sort_desc (\<lambda>d. numero (map_of (campos d) ''createdAt'')) ds))"

subsection \<open>Writing a request body into a document\<close>

fun cadenas :: "jsval list \<Rightarrow> string list option" where
  "cadenas [] = Some []"
| "cadenas (JStr s # vs) = (case cadenas vs of None \<Rightarrow> None | Some ss \<Rightarrow> Some (s # ss))"
| "cadenas (_ # vs) = None"

text \<open>
  Modelled from the spec: the schema (models/Airbnb.js) is not among the sources.  The
  spec's data model gives the owner as a reference to an administrator, \<open>active\<close> as a
  boolean and \<open>images\<close> as a sequence of strings; a value of another shape is a cast
  error (\<open>None\<close>).  The store refuses to change the identifier of a document.
  Every other key is a content field and is replaced wholesale.
\<close>

definition asignar :: "entorno \<Rightarrow> string \<Rightarrow> jsval \<Rightarrow> documento \<Rightarrow> documento option" where
  "asignar env k v d =
     (if k = ''_id'' then
        (case v of JStr s \<Rightarrow> if castea env s \<and> s = oid d then Some d else None
                 | _ \<Rightarrow> None)
      else if k = ''propietario'' then
        (case v of JStr s \<Rightarrow> if castea env s then Some (d\<lparr>propietario := s\<rparr>) else None
                 | _ \<Rightarrow> None)
      else if k = ''activo'' then
        (case v of JBool b \<Rightarrow> Some (d\<lparr>activo := b\<rparr>) | _ \<Rightarrow> None)
      else if k = ''imagenes'' then
        (case v of
           JArr vs \<Rightarrow> (case cadenas vs of None \<Rightarrow> None | Some ss \<Rightarrow> Some (d\<lparr>imagenes := Some ss\<rparr>))
         | _ \<Rightarrow> None)
      else Some (d\<lparr>campos := AList.update k v (campos d)\<rparr>))"

text \<open>Writing the keys of an object in turn stops at the first cast error.\<close>

fun asignar_todos :: "entorno \<Rightarrow> (string \<times> jsval) list \<Rightarrow> documento \<Rightarrow> documento option" where
  "asignar_todos env [] d = Some d"
| "asignar_todos env ((k, v) # kvs) d =
     (case asignar env k v d of None \<Rightarrow> None | Some d' \<Rightarrow> asignar_todos env kvs d')"

text \<open>
  Modelled from the spec: what an update may write is decided by the schema
  (models/Airbnb.js) and the driver, neither among the sources.  The spec's data model
  has the ownership "immutable after creation" and "never reassigned via update":
  the owner path of an update object is dropped, every other key is set in turn.
\<close>

definition aplicar :: "entorno \<Rightarrow> (string \<times> jsval) list \<Rightarrow> documento \<Rightarrow> documento option" where
  "aplicar env upd d = asignar_todos env (filter (\<lambda>kv. fst kv \<noteq> ''propietario'') upd) d"

text \<open>
  \<open>Model.findByIdAndUpdate(id, update, {new: true, runValidators: true})\<close>: throws on
  a cast or validation error, yields \<open>null\<close> when no document has the id, otherwise
  stores and yields the updated document.
\<close>

definition findByIdAndUpdate ::
  "entorno \<Rightarrow> string \<Rightarrow> (string \<times> jsval) list \<Rightarrow> coleccion
     \<Rightarrow> (documento option \<times> coleccion) consulta" where
  "findByIdAndUpdate env i upd col =
     (case findById env i col of
        Lanza \<Rightarrow> Lanza
      | Hallado None \<Rightarrow> Hallado (None, col)
      | Hallado (Some d) \<Rightarrow>
          (case aplicar env upd d of
             None \<Rightarrow> Lanza
           | Some d' \<Rightarrow> if valida env d' then Hallado (Some d', reemplazar d' col) else Lanza))"

text \<open>An object literal built by spreading: a repeated key keeps its first position and its last value.\<close>

definition spread :: "(string \<times> jsval) list \<Rightarrow> (string \<times> jsval) list" where
  "spread kvs = fold (\<lambda>(k, v). AList.update k v) kvs []"

subsection \<open>create\<close>

text \<open>
  Modelled from the spec: the defaults of a new document come from the schema, which is
  not among the sources; the spec has \<open>create\<close> lead to the active state and the
  identifier be unique and generated by the server (\<open>nuevo\<close>), so an identifier
  already in the collection is refused by the store.
\<close>

definition documento_nuevo :: "string \<Rightarrow> documento" where
  "documento_nuevo ident =
     \<lparr>oid = ident, propietario = [], activo = True, imagenes = Some [], campos = []\<rparr>"

definition createAirbnb ::
  "entorno \<Rightarrow> usuario \<Rightarrow> string \<Rightarrow> (string \<times> jsval) list \<Rightarrow> coleccion
     \<Rightarrow> (fallo + documento) \<times> coleccion" where
  "createAirbnb env u nuevo body col =
     (let body' = AList.update ''propietario'' (JStr (uid u)) (spread body)
      in case asignar_todos env body' (documento_nuevo nuevo) of
           None \<Rightarrow> (Inl (400, ErrorPeticion), col)
         | Some newAlojamiento \<Rightarrow>
             if valida env newAlojamiento \<and> nuevo \<notin> set (map oid col)
             then (Inr newAlojamiento, col @ [newAlojamiento])
             else (Inl (400, ErrorPeticion), col))"

subsection \<open>update\<close>

definition fieldsToParseAsJSON :: "string list" where
  "fieldsToParseAsJSON =
     [''ubicacion'', ''contacto'', ''capacidad'', ''caracteristicas'', ''servicios'', ''metodosPago'']"

definition parsear :: "entorno \<Rightarrow> string \<Rightarrow> (string \<times> jsval) list \<Rightarrow> (string \<times> jsval) list" where
  "parsear env field_name ud =
     (case map_of ud field_name of
        Some (JStr s) \<Rightarrow>
          if s = [] then ud
          else (case json_parse env s of
                  Some v \<Rightarrow> AList.update field_name v ud
                | None \<Rightarrow> ud)
      | _ \<Rightarrow> ud)"

definition updateData :: "entorno \<Rightarrow> usuario \<Rightarrow> (string \<times> jsval) list \<Rightarrow> (string \<times> jsval) list" where
  "updateData env u body =
     (let ud0 = spread body;
          ud1 = (case map_of ud0 ''precio'' of
                   None \<Rightarrow> ud0
                 | Some precio \<Rightarrow>
                     if truthy precio
                     then AList.delete ''precio'' (AList.update ''precioPorNoche'' precio ud0)
                     else ud0);
          ud2 = fold (parsear env) fieldsToParseAsJSON ud1
      in AList.update ''ultimaModificacion''
           (JObj [(''usuario'', JStr (uid u)),
                  (''fecha'', JNum (ahora env)),
                  (''camposModificados'', JArr (map (\<lambda>kv. JStr (fst kv)) ud2))])
           ud2)"

definition updateAirbnb ::
  "entorno \<Rightarrow> usuario \<Rightarrow> string \<Rightarrow> (string \<times> jsval) list \<Rightarrow> coleccion
     \<Rightarrow> (fallo + documento option) \<times> coleccion" where
  "updateAirbnb env u i body col =
     (case findById env i col of
        Lanza \<Rightarrow> (Inl (400, ErrorPeticion), col)
      | Hallado None \<Rightarrow> (Inl (404, NoEncontrado), col)
      | Hallado (Some alojamiento) \<Rightarrow>
          if \<not> isSuperAdmin_controller u \<and> propietario alojamiento \<noteq> uid u
          then (Inl (403, SinPermiso), col)
          else
            (case findByIdAndUpdate env i (updateData env u body) col of
               Lanza \<Rightarrow> (Inl (400, ErrorPeticion), col)
             | Hallado (updatedAlojamiento, col') \<Rightarrow> (Inr updatedAlojamiento, col')))"

subsection \<open>soft delete\<close>

definition deleteAirbnb ::
  "entorno \<Rightarrow> usuario \<Rightarrow> string \<Rightarrow> coleccion \<Rightarrow> (fallo + unit) \<times> coleccion" where
  "deleteAirbnb env u i col =
     (case findById env i col of
        Lanza \<Rightarrow> (Inl (400, ErrorPeticion), col)
      | Hallado None \<Rightarrow> (Inl (404, NoEncontrado), col)
      | Hallado (Some alojamiento) \<Rightarrow>
          if \<not> isSuperAdmin_controller u \<and> propietario alojamiento \<noteq> uid u
          then (Inl (403, SinPermiso), col)
          else
            (case save env (alojamiento\<lparr>activo := False\<rparr>) col of
               None \<Rightarrow> (Inl (400, ErrorPeticion), col)
             | Some col' \<Rightarrow> (Inr (), col')))"

section \<open>Notions used to state the properties\<close>

text \<open>
  The email literals each toggle route compares \<open>req.user.email\<close> with, in source
  order (hotelRoutes.js line 352, part_004 lines 363-364, part_002 lines 394-395).
\<close>

fun emails_toggle :: "recurso \<Rightarrow> string list" where
  "emails_toggle Hotel = [''direcciondeturismojalpan@gmail.com'']"
| "emails_toggle Cabana = [''superadmin@turismo.com'', ''direcciondeturismojalpan@gmail.com'']"
| "emails_toggle Airbnb = [''superadmin@turismo.com'', ''direcciondeturismojalpan@gmail.com'']"

text \<open>
  What a toggle is to store, written out from the specification: the flag flipped and
  the audit stamp -- actor, timestamp, action, reason -- under \<open>ultimaModificacion\<close>,
  the action naming the state the record is left in.
\<close>

definition conmutado :: "entorno \<Rightarrow> usuario \<Rightarrow> documento \<Rightarrow> documento" where
  "conmutado env u d =
     d\<lparr>activo := \<not> activo d,
       campos := AList.update ''ultimaModificacion''
                   (JObj [(''usuario'', JStr (uid u)),
                          (''fecha'', JNum (ahora env)),
                          (''accion'', JStr (if activo d then ''bloqueado'' else ''activado'')),
                          (''motivo'', JStr ''Cambio de estado por super administrador'')])
                   (campos d)\<rparr>"

text \<open>A listing request without query parameters.\<close>

definition sin_filtros :: query where
  "sin_filtros = \<lparr>ciudad = None, precioMin = None, precioMax = None, huespedes = None, tipo = None\<rparr>"

subsection \<open>Sample data\<close>

text \<open>
  An environment whose store accepts everything and whose media host rejects every
  deletion; an ordinary administrator, the
  super administrator, and an account known only by the second privileged email.
\<close>

definition entorno_ej :: entorno where
  "entorno_ej =
     \<lparr>castea = (\<lambda>_. True), valida = (\<lambda>_. True),
      destroy = (\<lambda>_. False), json_parse = (\<lambda>_. None),
      filtro_ok = (\<lambda>_ _. True), motor = (\<lambda>_ _ _. True), ahora = 1000\<rparr>"

definition ana :: usuario where
  "ana = \<lparr>uid = ''u1'', email = ''ana@example.com'', isSuperAdmin = False, role = ''admin''\<rparr>"

definition direccion :: usuario where
  "direccion = \<lparr>uid = ''u0'', email = ''direcciondeturismojalpan@gmail.com'',
                 isSuperAdmin = True, role = ''super-admin''\<rparr>"

definition soler :: usuario where
  "soler = \<lparr>uid = ''u9'', email = ''superadmin@turismo.com'', isSuperAdmin = False, role = ''admin''\<rparr>"

definition casa :: "string list \<Rightarrow> documento" where
  "casa imgs = \<lparr>oid = ''a1'', propietario = ''u1'', activo = True, imagenes = Some imgs,
                 campos = [(''nombre'', JStr ''Casa'')]\<rparr>"

definition casa_azul :: documento where
  "casa_azul =
     \<lparr>oid = ''a1'', propietario = ''u1'', activo = True, imagenes = Some [],
      campos = [(''nombre'', JStr ''Casa Azul''),
                (''ultimaModificacion'',
                 JObj [(''usuario'', JStr ''u1''), (''fecha'', JNum 1000),
                       (''camposModificados'', JArr [JStr ''nombre''])])]\<rparr>"

definition casa_intacta :: documento where
  "casa_intacta =
     \<lparr>oid = ''a1'', propietario = ''u1'', activo = True, imagenes = Some [],
      campos = [(''nombre'', JStr ''Casa''),
                (''ultimaModificacion'',
                 JObj [(''usuario'', JStr ''u1''), (''fecha'', JNum 1000),
                       (''camposModificados'', JArr [JStr ''propietario''])])]\<rparr>"

definition casa_bloqueada :: documento where
  "casa_bloqueada =
     \<lparr>oid = ''a1'', propietario = ''u1'', activo = False, imagenes = Some [],
      campos = [(''nombre'', JStr ''Casa''),
                (''ultimaModificacion'',
                 JObj [(''usuario'', JStr ''u0''), (''fecha'', JNum 1000),
                       (''accion'', JStr ''bloqueado''),
                       (''motivo'', JStr ''Cambio de estado por super administrador'')])]\<rparr>"

definition casa_reactivada :: documento where
  "casa_reactivada =
     \<lparr>oid = ''a1'', propietario = ''u1'', activo = True, imagenes = Some [],
      campos = [(''nombre'', JStr ''Casa''),
                (''ultimaModificacion'',
                 JObj [(''usuario'', JStr ''u9''), (''fecha'', JNum 1000),
                       (''accion'', JStr ''activado''),
                       (''motivo'', JStr ''Cambio de estado por super administrador'')])]\<rparr>"

definition casa_inactiva :: documento where
  "casa_inactiva = \<lparr>oid = ''a1'', propietario = ''u1'', activo = False,
                     imagenes = Some [''x.jpg''], campos = [(''nombre'', JStr ''Casa'')]\<rparr>"

section \<open>Properties of the store\<close>

lemma primero_find: "(case filter P xs of [] \<Rightarrow> None | d # _ \<Rightarrow> Some d) = find P xs"
  by (induction xs) auto

lemma findById_eq:
  "findById env i col = (if castea env i then Hallado (find (\<lambda>d. oid d = i) col) else Lanza)"
  by (simp add: findById_def findOne_def find_docs_def primero_find)

lemma cargar_propio_eq:
  "cargar_propio env u i col =
     (if castea env i \<and> castea env (uid u)
      then Hallado (find (\<lambda>d. oid d = i \<and> propietario d = uid u \<and> activo d = True) col)
      else Lanza)"
  by (simp add: cargar_propio_def findOne_def find_docs_def primero_find)

lemma find_distinto:
  "distinct (map oid col) \<Longrightarrow> d \<in> set col \<Longrightarrow> find (\<lambda>x. oid x = oid d) col = Some d"
  by (induction col) (auto simp: image_iff)

lemma find_oid_None: "(find (\<lambda>x. oid x = i) col = None) = (i \<notin> oid ` set col)"
  by (auto simp: find_None_iff)

lemma find_oid_Some:
  "find (\<lambda>x. oid x = i) col = Some d \<Longrightarrow> d \<in> set col \<and> oid d = i"
  by (induction col) (auto split: if_splits)

lemma findById_Some:
  assumes "findById env i col = Hallado (Some d)"
  shows "castea env i \<and> find (\<lambda>x. oid x = i) col = Some d \<and> d \<in> set col \<and> oid d = i"
proof -
  from assms have c: "castea env i" and f: "find (\<lambda>x. oid x = i) col = Some d"
    by (auto simp: findById_eq split: if_splits)
  with find_oid_Some[OF f] show ?thesis by simp
qed

lemma length_reemplazar: "length (reemplazar d col) = length col"
  by (simp add: reemplazar_def)

lemma reemplazar_mismo: "x \<in> set (reemplazar d col) \<Longrightarrow> oid x = oid d \<Longrightarrow> x = d"
  by (auto simp: reemplazar_def split: if_splits)

lemma reemplazar_miembro: "d0 \<in> set col \<Longrightarrow> oid d0 = oid d \<Longrightarrow> d \<in> set (reemplazar d col)"
  by (force simp: reemplazar_def)

lemma find_reemplazar:
  "find (\<lambda>x. oid x = oid d) col = Some d0 \<Longrightarrow> find (\<lambda>x. oid x = oid d) (reemplazar d col) = Some d"
  by (induction col) (auto simp: reemplazar_def split: if_splits)

lemma sin_registro_propio:
  assumes "\<forall>d\<in>set col. oid d = i \<longrightarrow> propietario d \<noteq> uid u"
  shows "cargar_propio env u i col =
           (if castea env i \<and> castea env (uid u) then Hallado None else Lanza)"
proof -
  have "find (\<lambda>d. oid d = i \<and> propietario d = uid u \<and> activo d = True) col = None"
    using assms by (auto simp: find_None_iff)
  then show ?thesis by (simp add: cargar_propio_eq)
qed

section \<open>Properties of the image list manager\<close>

subsection \<open>Splicing and the index guards\<close>

lemma splice_en_rango:
  assumes "0 \<le> i" and "i < int (length xs)"
  shows "splice_js i (Suc 0) xs = ([xs ! nat i], take (nat i) xs @ drop (Suc (nat i)) xs)"
proof -
  from assms have n: "nat i < length xs" by linarith
  have a: "nat (if i < 0 then max (int (length xs) + i) 0 else min i (int (length xs))) = nat i"
    using assms by simp
  have m: "min (Suc 0) (length xs - nat i) = Suc 0" using n by simp
  have t: "take (Suc 0) (drop (nat i) xs) = [xs ! nat i]"
    using n by (simp add: take_Suc hd_drop_conv_nth)
  show ?thesis
    unfolding splice_js_def Let_def a m t by simp
qed

text \<open>Past the guards the index lies within the array, so the reads that follow are defined.\<close>

lemma guardas_Inr:
  assumes "guardas_indice t c imgs index = Inr xs"
  shows "imgs = Some xs \<and> 0 \<le> index \<and> index < int (length xs)"
  using assms
  by (cases t) (auto simp: guardas_indice_def elemento_def split: option.splits if_splits)

lemma guardas_no_airbnb:
  assumes "t \<noteq> Airbnb"
  shows "guardas_indice t c imgs index =
           (case imgs of
              None \<Rightarrow> Inl (404, SinImagenes)
            | Some xs \<Rightarrow>
                if xs = [] then Inl (404, SinImagenes)
                else if index < 0 \<or> int (length xs) \<le> index then Inl (c, IndiceInvalido)
                else Inr xs)"
  using assms by (cases t) (auto simp: guardas_indice_def split: option.splits)

lemma guardas_airbnb:
  "guardas_indice Airbnb c imgs index =
           (case imgs of
              None \<Rightarrow> Inl (404, ImagenNoEncontrada)
            | Some xs \<Rightarrow>
                if index < 0 \<or> int (length xs) \<le> index \<or> xs ! nat index = []
                then Inl (404, ImagenNoEncontrada)
                else Inr xs)"
  by (auto simp: guardas_indice_def elemento_def split: option.splits)

lemma promover_en_rango:
  assumes "0 \<le> index" and "index < int (length xs)"
  shows "promover t index xs =
           (xs ! nat index, xs ! nat index # take (nat index) xs @ drop (Suc (nat index)) xs)"
  using splice_en_rango[OF assms] by (cases t) (simp_all add: promover_def Let_def)

subsection \<open>Who may change the image list\<close>

text \<open>
  C2 (as amended).  The image routes load the record with the caller as owner, so they
  serve the owner only: for a caller who owns no record with the requested id --
  super administrator or not -- append, removeAt and setPrimary answer 404 (500 when
  an id does not cast) and leave the collection as it was.
\<close>

theorem image_routes_owner_only:
  assumes "\<forall>d\<in>set col. oid d = i \<longrightarrow> propietario d \<noteq> uid u"
  shows "upload_images env u i (Some (f # fs)) col =
           (Inl (if castea env i \<and> castea env (uid u) then (404, NoEncontrado)
                 else (500, ErrorServidor)), col)
       \<and> delete_image t env u i index col =
           (Inl (if castea env i \<and> castea env (uid u) then (404, NoEncontrado)
                 else (500, ErrorServidor)), col, [])
       \<and> set_main t env u i index col =
           (Inl (if castea env i \<and> castea env (uid u) then (404, NoEncontrado)
                 else (500, ErrorServidor)), col)"
  by (simp add: upload_images_def delete_image_def set_main_def sin_registro_propio[OF assms])

theorem image_routes_owner_only_witness:
  "upload_images entorno_ej direccion ''a1'' (Some [''n.jpg'']) [casa [''x.jpg'']] =
           (Inl (404, NoEncontrado), [casa [''x.jpg'']])
   \<and> delete_image Cabana entorno_ej direccion ''a1'' 0 [casa [''x.jpg'']] =
           (Inl (404, NoEncontrado), [casa [''x.jpg'']], [])
   \<and> set_main Cabana entorno_ej direccion ''a1'' 0 [casa [''x.jpg'']] =
           (Inl (404, NoEncontrado), [casa [''x.jpg'']])"
proof -
  have h: "\<forall>d\<in>set [casa [''x.jpg'']]. oid d = ''a1'' \<longrightarrow> propietario d \<noteq> uid direccion"
    by (simp add: casa_def direccion_def)
  show ?thesis
    using image_routes_owner_only[OF h, of entorno_ej "''n.jpg''" "[]" Cabana 0]
    by (simp add: entorno_ej_def)
qed

text \<open>
  C2 as stated fails: the super administrator, who passes both privileged-identity
  tests, is turned away by all three image mutations on a record of another owner.
\<close>

theorem super_admin_image_mutation_counterexample:
  "isSuperAdmin_toggle Hotel direccion \<and> isSuperAdmin_controller direccion
   \<and> fst (upload_images entorno_ej direccion ''a1'' (Some [''n.jpg'']) [casa [''x.jpg'', ''y.jpg'']])
       = Inl (404, NoEncontrado)
   \<and> fst (delete_image Hotel entorno_ej direccion ''a1'' 1 [casa [''x.jpg'', ''y.jpg'']])
       = Inl (404, NoEncontrado)
   \<and> fst (set_main Hotel entorno_ej direccion ''a1'' 1 [casa [''x.jpg'', ''y.jpg'']])
       = Inl (404, NoEncontrado)"
  by (simp add: upload_images_def delete_image_def set_main_def cargar_propio_eq
        isSuperAdmin_controller_def entorno_ej_def direccion_def casa_def)

subsection \<open>Removing an image\<close>

text \<open>A call that passes the guards removes exactly the element at the index.\<close>

lemma delete_image_exito:
  assumes "cargar_propio env u i col = Hallado (Some h)"
    and "guardas_indice t 404 (imagenes h) index = Inr xs"
    and "valida env (sellar env (h\<lparr>imagenes := Some (take (nat index) xs @ drop (Suc (nat index)) xs)\<rparr>))"
  shows "delete_image t env u i index col =
           (Inr (xs ! nat index, length xs - 1),
            reemplazar (sellar env (h\<lparr>imagenes := Some (take (nat index) xs @ drop (Suc (nat index)) xs)\<rparr>)) col,
            [borrar_en_nube t env (xs ! nat index)])"
proof -
  from guardas_Inr[OF assms(2)] have r: "0 \<le> index" "index < int (length xs)" by auto
  then have n: "nat index < length xs" by linarith
  note s = splice_en_rango[OF r]
  have l: "length (take (nat index) xs @ drop (Suc (nat index)) xs) = length xs - 1"
    using n by simp
  show ?thesis
    using assms(3) by (simp add: delete_image_def assms(1,2) s l save_def Let_def del: length_append)
qed

text \<open>
  On hotels and cabins the handler answers with an index error exactly when the list
  is missing or empty or the index is out of range.
\<close>

lemma delete_image_indice:
  assumes "cargar_propio env u i col = Hallado (Some h)" and "t \<noteq> Airbnb"
  shows "(fst (delete_image t env u i index col) \<in> {Inl (404, SinImagenes), Inl (404, IndiceInvalido)})
         = (case imagenes h of
              None \<Rightarrow> True
            | Some xs \<Rightarrow> xs = [] \<or> index < 0 \<or> int (length xs) \<le> index)"
  using assms
  by (auto simp: delete_image_def guardas_no_airbnb Let_def save_def split: option.splits)

text \<open>On rentals it also does so when the reference stored at the index is the empty string.\<close>

lemma delete_image_indice_airbnb:
  assumes "cargar_propio env u i col = Hallado (Some h)"
  shows "(fst (delete_image Airbnb env u i index col) = Inl (404, ImagenNoEncontrada))
         = (case imagenes h of
              None \<Rightarrow> True
            | Some xs \<Rightarrow> index < 0 \<or> int (length xs) \<le> index \<or> xs ! nat index = [])"
  using assms
  by (auto simp: delete_image_def guardas_airbnb Let_def save_def split: option.splits)

text \<open>
  C4.  removeAt is to fail with an index error exactly when the list is empty or the
  index is outside \<open>[0, len)\<close>.  The rental route breaks this: on a record created
  with the list \<open>['', 'b.jpg']\<close> the owner's request to remove index 0 -- a non-empty
  list, an index within bounds -- is answered 404 and nothing is removed, where the
  hotel and cabin routes remove the element.
\<close>

theorem airbnb_delete_image_empty_reference:
  "createAirbnb entorno_ej ana ''a1''
       [(''nombre'', JStr ''Casa''), (''imagenes'', JArr [JStr '''', JStr ''b.jpg''])] []
     = (Inr (casa ['''', ''b.jpg'']), [casa ['''', ''b.jpg'']])
   \<and> delete_image Airbnb entorno_ej ana ''a1'' 0 [casa ['''', ''b.jpg'']]
     = (Inl (404, ImagenNoEncontrada), [casa ['''', ''b.jpg'']], [])
   \<and> fst (delete_image Hotel entorno_ej ana ''a1'' 0 [casa ['''', ''b.jpg'']]) = Inr ('''', 1)
   \<and> fst (delete_image Cabana entorno_ej ana ''a1'' 0 [casa ['''', ''b.jpg'']]) = Inr ('''', 1)"
  by code_simp

text \<open>
  C7.  For every removeAt call that passes the guards and whose save the store accepts:
  when the media host rejects the deletion, the handler only logs a warning; the
  response is still the success with the removed reference, and the stored record has
  lost exactly that element.
\<close>

theorem delete_image_survives_cloud_failure:
  assumes "cargar_propio env u i col = Hallado (Some h)"
    and "guardas_indice t 404 (imagenes h) index = Inr xs"
    and "valida env (sellar env (h\<lparr>imagenes := Some (take (nat index) xs @ drop (Suc (nat index)) xs)\<rparr>))"
    and "\<not> destroy env (carpeta t @ ''/'' @ public_id (xs ! nat index))"
  shows "delete_image t env u i index col =
           (Inr (xs ! nat index, length xs - 1),
            reemplazar (sellar env (h\<lparr>imagenes := Some (take (nat index) xs @ drop (Suc (nat index)) xs)\<rparr>)) col,
            [Aviso (carpeta t @ ''/'' @ public_id (xs ! nat index))])"
  using delete_image_exito[OF assms(1-3)] assms(4) by (simp add: borrar_en_nube_def)

theorem delete_image_survives_cloud_failure_witness:
  "delete_image Hotel entorno_ej ana ''a1'' 1 [casa [''x/a.jpg'', ''x/b.jpg'', ''x/c.jpg'']] =
     (Inr (''x/b.jpg'', 2),
      [\<lparr>oid = ''a1'', propietario = ''u1'', activo = True,
        imagenes = Some [''x/a.jpg'', ''x/c.jpg''],
        campos = [(''nombre'', JStr ''Casa''), (''updatedAt'', JNum 1000)]\<rparr>],
      [Aviso ''turismo-app/hoteles/b''])"
proof -
  let ?xs = "[''x/a.jpg'', ''x/b.jpg'', ''x/c.jpg'']"
  have a: "cargar_propio entorno_ej ana ''a1'' [casa ?xs] = Hallado (Some (casa ?xs))"
    by (simp add: cargar_propio_eq entorno_ej_def ana_def casa_def)
  have b: "guardas_indice Hotel 404 (imagenes (casa ?xs)) 1 = Inr ?xs"
    by (simp add: guardas_no_airbnb casa_def)
  have c: "valida entorno_ej (sellar entorno_ej
             (casa ?xs\<lparr>imagenes := Some (take (nat 1) ?xs @ drop (Suc (nat 1)) ?xs)\<rparr>))"
    by (simp add: entorno_ej_def)
  have d: "\<not> destroy entorno_ej (carpeta Hotel @ ''/'' @ public_id (?xs ! nat 1))"
    by (simp add: entorno_ej_def)
  show ?thesis
    using delete_image_survives_cloud_failure[OF a b c d]
    by (simp add: reemplazar_def sellar_def casa_def entorno_ej_def public_id_def)
qed

subsection \<open>Promoting an image\<close>

lemma set_main_promueve:
  assumes "cargar_propio env u i col = Hallado (Some h)"
    and "guardas_indice t (if t = Cabana then 400 else 404) (imagenes h) index = Inr xs"
    and "index \<noteq> 0"
    and "valida env (sellar env (h\<lparr>imagenes :=
           Some (xs ! nat index # take (nat index) xs @ drop (Suc (nat index)) xs)\<rparr>))"
  shows "set_main t env u i index col =
           (Inr (xs ! nat index),
            reemplazar (sellar env (h\<lparr>imagenes :=
              Some (xs ! nat index # take (nat index) xs @ drop (Suc (nat index)) xs)\<rparr>)) col)"
proof -
  from guardas_Inr[OF assms(2)] have r: "0 \<le> index" "index < int (length xs)" by auto
  show ?thesis
    using assms(3,4) by (simp add: set_main_def assms(1,2) promover_en_rango[OF r] save_def)
qed

lemma set_main_cero:
  assumes "cargar_propio env u i col = Hallado (Some h)"
    and "imagenes h = Some (x # xs)"
    and "t \<noteq> Airbnb \<or> x \<noteq> []"
  shows "set_main t env u i 0 col = (Inr x, col)"
  using assms
  by (cases t) (auto simp: set_main_def guardas_no_airbnb guardas_airbnb)

text \<open>The scenario of the specification, on every lodging type, for non-empty references.\<close>

lemma escenario_imagenes:
  assumes "a \<noteq> []" "b \<noteq> []" "c \<noteq> []"
  shows "map imagenes (snd (upload_images entorno_ej ana ''a1'' (Some [a, b, c]) [casa []]))
           = [Some [a, b, c]]
       \<and> map imagenes (snd (set_main t entorno_ej ana ''a1'' 2
            (snd (upload_images entorno_ej ana ''a1'' (Some [a, b, c]) [casa []]))))
           = [Some [c, a, b]]
       \<and> map imagenes (fst (snd (delete_image t entorno_ej ana ''a1'' 1
            (snd (set_main t entorno_ej ana ''a1'' 2
               (snd (upload_images entorno_ej ana ''a1'' (Some [a, b, c]) [casa []])))))))
           = [Some [c, b]]"
  using assms
  by (cases t)
     (simp_all add: upload_images_def set_main_def delete_image_def cargar_propio_eq
        guardas_airbnb guardas_no_airbnb promover_def
        splice_js_def save_def sellar_def reemplazar_def Let_def entorno_ej_def ana_def casa_def)

text \<open>
  C5.  setPrimary is to move the element at every index \<open>> 0\<close> within bounds to the
  front.  The rental route breaks this: on a record created with the list
  \<open>['a.jpg', '']\<close> the owner's request to promote index 1 is answered 404 and the
  list stays as it was, where the hotel and cabin routes store \<open>['', 'a.jpg']\<close>.
\<close>

theorem airbnb_set_main_empty_reference:
  "createAirbnb entorno_ej ana ''a1''
       [(''nombre'', JStr ''Casa''), (''imagenes'', JArr [JStr ''a.jpg'', JStr ''''])] []
     = (Inr (casa [''a.jpg'', '''']), [casa [''a.jpg'', '''']])
   \<and> set_main Airbnb entorno_ej ana ''a1'' 1 [casa [''a.jpg'', '''']]
     = (Inl (404, ImagenNoEncontrada), [casa [''a.jpg'', '''']])
   \<and> map imagenes (snd (set_main Hotel entorno_ej ana ''a1'' 1 [casa [''a.jpg'', '''']]))
     = [Some ['''', ''a.jpg'']]
   \<and> map imagenes (snd (set_main Cabana entorno_ej ana ''a1'' 1 [casa [''a.jpg'', '''']]))
     = [Some ['''', ''a.jpg'']]"
  by code_simp

text \<open>
  C6.  setPrimary at index 0 is to be a successful no-op on every non-empty list.  The
  rental route breaks this: on a record created with the list \<open>['', 'b.jpg']\<close> the
  owner's request is answered 404, where the hotel and cabin routes answer with the
  current primary and leave the collection as it was.
\<close>

theorem airbnb_set_main_zero_empty_reference:
  "createAirbnb entorno_ej ana ''a1''
       [(''nombre'', JStr ''Casa''), (''imagenes'', JArr [JStr '''', JStr ''b.jpg''])] []
     = (Inr (casa ['''', ''b.jpg'']), [casa ['''', ''b.jpg'']])
   \<and> set_main Airbnb entorno_ej ana ''a1'' 0 [casa ['''', ''b.jpg'']]
     = (Inl (404, ImagenNoEncontrada), [casa ['''', ''b.jpg'']])
   \<and> set_main Hotel entorno_ej ana ''a1'' 0 [casa ['''', ''b.jpg'']]
     = (Inr '''', [casa ['''', ''b.jpg'']])
   \<and> set_main Cabana entorno_ej ana ''a1'' 0 [casa ['''', ''b.jpg'']]
     = (Inr '''', [casa ['''', ''b.jpg'']])"
  by code_simp

section \<open>Properties of the toggle\<close>

lemma isSuperAdmin_toggle_lista:
  "isSuperAdmin_toggle t u =
     (email u \<in> set (emails_toggle t) \<or> isSuperAdmin u \<or> role u = ''super-admin'')"
  by (cases t) auto

text \<open>
  C9 as stated fails: no route's list holds an email that the other two lists lack.
\<close>

theorem toggle_allow_list_exclusive_email_counterexample:
  "\<not> (\<exists>t e. e \<in> set (emails_toggle t) \<and> (\<forall>t'. t' \<noteq> t \<longrightarrow> e \<notin> set (emails_toggle t')))"
proof
  assume "\<exists>t e. e \<in> set (emails_toggle t) \<and> (\<forall>t'. t' \<noteq> t \<longrightarrow> e \<notin> set (emails_toggle t'))"
  then obtain t e where e: "e \<in> set (emails_toggle t)"
    and o: "\<forall>t'. t' \<noteq> t \<longrightarrow> e \<notin> set (emails_toggle t')" by blast
  show False
  proof (cases t)
    case Hotel
    with e o[rule_format, of Cabana] show False by simp
  next
    case Cabana
    with e o[rule_format, of Airbnb] show False by simp
  next
    case Airbnb
    with e o[rule_format, of Cabana] show False by simp
  qed
qed

text \<open>
  C9 (as amended).  The cabin and rental routes share one list, which is the hotel
  route's list with \<open>superadmin@turismo.com\<close> in front; the hotel route does not
  know that email.  So the cabin and rental tests are the same function and the hotel
  test is a different one: an account known only by that email may toggle cabins and
  rentals but not hotels.
\<close>

theorem toggle_allow_lists_differ:
  "emails_toggle Cabana = ''superadmin@turismo.com'' # emails_toggle Hotel
   \<and> emails_toggle Airbnb = ''superadmin@turismo.com'' # emails_toggle Hotel
   \<and> ''superadmin@turismo.com'' \<notin> set (emails_toggle Hotel)
   \<and> isSuperAdmin_toggle Cabana = isSuperAdmin_toggle Airbnb
   \<and> isSuperAdmin_toggle Cabana soler \<and> isSuperAdmin_toggle Airbnb soler
   \<and> \<not> isSuperAdmin_toggle Hotel soler"
  by (auto simp: soler_def fun_eq_iff)

section \<open>Properties of the listing service\<close>

subsection \<open>Writing a body into a document\<close>

lemma asignar_oid: "asignar env k v d = Some d' \<Longrightarrow> oid d' = oid d"
  by (auto simp: asignar_def split: if_splits jsval.splits option.splits)

lemma asignar_propietario:
  "asignar env k v d = Some d' \<Longrightarrow> k \<noteq> ''propietario'' \<Longrightarrow> propietario d' = propietario d"
  by (auto simp: asignar_def split: if_splits jsval.splits option.splits)

lemma asignar_todos_oid: "asignar_todos env kvs d = Some d' \<Longrightarrow> oid d' = oid d"
proof (induction kvs arbitrary: d)
  case Nil
  then show ?case by simp
next
  case (Cons kv kvs)
  obtain k v where kv: "kv = (k, v)" by (cases kv)
  with Cons.prems obtain d1 where a: "asignar env k v d = Some d1"
    and b: "asignar_todos env kvs d1 = Some d'" by (auto split: option.splits)
  from Cons.IH[OF b] asignar_oid[OF a] show ?case by simp
qed

lemma asignar_todos_sin_propietario:
  assumes "asignar_todos env kvs d = Some d'" and "''propietario'' \<notin> fst ` set kvs"
  shows "propietario d' = propietario d"
  using assms
proof (induction kvs arbitrary: d)
  case Nil
  then show ?case by simp
next
  case (Cons kv kvs)
  obtain k v where kv: "kv = (k, v)" by (cases kv)
  with Cons.prems(1) obtain d1 where a: "asignar env k v d = Some d1"
    and b: "asignar_todos env kvs d1 = Some d'" by (auto split: option.splits)
  from Cons.prems(2) kv have k: "k \<noteq> ''propietario''" and r: "''propietario'' \<notin> fst ` set kvs"
    by auto
  from asignar_propietario[OF a k] Cons.IH[OF b r] show ?case by simp
qed

lemma asignar_todos_con_propietario:
  assumes "asignar_todos env kvs d = Some d'"
    and "distinct (map fst kvs)" and "(''propietario'', JStr s) \<in> set kvs"
  shows "propietario d' = s"
  using assms
proof (induction kvs arbitrary: d)
  case Nil
  then show ?case by simp
next
  case (Cons kv kvs)
  obtain k v where kv: "kv = (k, v)" by (cases kv)
  with Cons.prems(1) obtain d1 where a: "asignar env k v d = Some d1"
    and b: "asignar_todos env kvs d1 = Some d'" by (auto split: option.splits)
  show ?case
  proof (cases "kv = (''propietario'', JStr s)")
    case True
    with a kv have "propietario d1 = s"
      by (auto simp: asignar_def split: if_splits)
    moreover from True Cons.prems(2) have "''propietario'' \<notin> fst ` set kvs" by auto
    ultimately show ?thesis using asignar_todos_sin_propietario[OF b] by simp
  next
    case False
    with Cons.prems(3) have "(''propietario'', JStr s) \<in> set kvs" by simp
    moreover from Cons.prems(2) have "distinct (map fst kvs)" by simp
    ultimately show ?thesis using Cons.IH[OF b] by simp
  qed
qed

lemma aplicar_oid: "aplicar env kvs d = Some d' \<Longrightarrow> oid d' = oid d"
  by (simp add: aplicar_def asignar_todos_oid)

lemma aplicar_propietario:
  assumes "aplicar env kvs d = Some d'"
  shows "propietario d' = propietario d"
proof -
  have "''propietario'' \<notin> fst ` set (filter (\<lambda>kv. fst kv \<noteq> ''propietario'') kvs)"
    by auto
  with assms show ?thesis by (simp add: aplicar_def asignar_todos_sin_propietario)
qed

lemma distinct_fold_update:
  "distinct (map fst acc) \<Longrightarrow> distinct (map fst (fold (\<lambda>(k, v). AList.update k v) kvs acc))"
  by (induction kvs arbitrary: acc) (simp_all add: case_prod_beta AList.distinct_update)

lemma distinct_spread: "distinct (map fst (spread kvs))"
  by (simp add: spread_def distinct_fold_update)

subsection \<open>create\<close>

text \<open>The owner of a created record is the caller, whatever the body says.\<close>

lemma createAirbnb_propietario:
  assumes "createAirbnb env u nuevo body col = (Inr d, col')"
  shows "propietario d = uid u \<and> col' = col @ [d]"
proof -
  let ?body = "AList.update ''propietario'' (JStr (uid u)) (spread body)"
  from assms have a: "asignar_todos env ?body (documento_nuevo nuevo) = Some d"
    and c: "col' = col @ [d]"
    by (auto simp: createAirbnb_def Let_def split: option.splits if_splits)
  have "distinct (map fst ?body)" by (simp add: AList.distinct_update distinct_spread)
  moreover have "(''propietario'', JStr (uid u)) \<in> set ?body"
    by (simp add: AList.update_conv' map_of_eq_Some_iff[symmetric] AList.distinct_update distinct_spread)
  ultimately have "propietario d = uid u" using asignar_todos_con_propietario[OF a] by simp
  with c show ?thesis by simp
qed

subsection \<open>get\<close>

text \<open>
  C10.  The read by id has no active filter and no caller: with unique ids, a stored
  record is returned as stored whenever its id casts, soft-deleted or not; and the
  answer is NotFound exactly when the id casts and no record has it.
\<close>

theorem getAirbnb_ignores_active_flag:
  "(distinct (map oid col) \<longrightarrow> d \<in> set col \<longrightarrow> castea env (oid d)
      \<longrightarrow> getAirbnb env (oid d) col = Inr d)
   \<and> ((getAirbnb env i col = Inl (404, NoEncontrado)) = (castea env i \<and> i \<notin> oid ` set col))"
proof (intro conjI impI)
  assume "distinct (map oid col)" "d \<in> set col" "castea env (oid d)"
  then show "getAirbnb env (oid d) col = Inr d"
    by (simp add: getAirbnb_def findById_eq find_distinto)
next
  show "(getAirbnb env i col = Inl (404, NoEncontrado)) = (castea env i \<and> i \<notin> oid ` set col)"
  proof (cases "find (\<lambda>x. oid x = i) col")
    case None
    then show ?thesis by (simp add: getAirbnb_def findById_eq find_oid_None[symmetric])
  next
    case (Some x)
    then have "i \<in> oid ` set col" using find_oid_Some by force
    with Some show ?thesis by (simp add: getAirbnb_def findById_eq)
  qed
qed

theorem getAirbnb_ignores_active_flag_witness:
  "getAirbnb entorno_ej ''a1'' [casa_inactiva] = Inr casa_inactiva
   \<and> \<not> activo casa_inactiva
   \<and> getAirbnb entorno_ej ''zz'' [casa_inactiva] = Inl (404, NoEncontrado)"
proof -
  have a: "distinct (map oid [casa_inactiva])" by simp
  have b: "casa_inactiva \<in> set [casa_inactiva]" by simp
  have c: "castea entorno_ej (oid casa_inactiva)" by (simp add: entorno_ej_def)
  have o: "oid casa_inactiva = ''a1''" by (simp add: casa_inactiva_def)
  have n: "castea entorno_ej ''zz'' \<and> ''zz'' \<notin> oid ` set [casa_inactiva]"
    by (simp add: entorno_ej_def casa_inactiva_def)
  have f: "\<not> activo casa_inactiva" by (simp add: casa_inactiva_def)
  from getAirbnb_ignores_active_flag[of "[casa_inactiva]" casa_inactiva entorno_ej "''zz''"] a b c n f
  show ?thesis by (simp add: o)
qed

subsection \<open>update\<close>

lemma updateAirbnb_exito:
  assumes "findById env i col = Hallado (Some d)"
    and "isSuperAdmin_controller u \<or> propietario d = uid u"
    and "aplicar env (updateData env u body) d = Some d'"
    and "valida env d'"
  shows "updateAirbnb env u i body col = (Inr (Some d'), reemplazar d' col)"
  using assms by (auto simp: updateAirbnb_def findByIdAndUpdate_def)

lemma updateAirbnb_Inr:
  assumes "findById env i col = Hallado (Some d)"
    and "updateAirbnb env u i body col = (Inr r, col')"
  shows "\<exists>d'. r = Some d' \<and> aplicar env (updateData env u body) d = Some d'
              \<and> valida env d' \<and> col' = reemplazar d' col"
  using assms
  by (auto simp: updateAirbnb_def findByIdAndUpdate_def split: if_splits option.splits)

text \<open>
  C1.  For every stored record and every patch, a successful update leaves the owner
  as it was, whether or not the patch has a \<open>propietario\<close> field; the record found
  at the id afterwards is the updated one.
\<close>

theorem update_never_changes_owner:
  assumes "findById env i col = Hallado (Some d)"
    and "updateAirbnb env u i body col = (Inr r, col')"
  shows "\<exists>d'. r = Some d' \<and> propietario d' = propietario d
              \<and> findById env i col' = Hallado (Some d')"
proof -
  from updateAirbnb_Inr[OF assms] obtain d' where r: "r = Some d'"
    and a: "aplicar env (updateData env u body) d = Some d'"
    and c: "col' = reemplazar d' col" by blast
  from aplicar_propietario[OF a] have p: "propietario d' = propietario d" .
  from findById_Some[OF assms(1)] have ci: "castea env i"
    and f: "find (\<lambda>x. oid x = i) col = Some d" and o: "oid d = i" by auto
  from aplicar_oid[OF a] o have o': "oid d' = i" by simp
  from f o' have "find (\<lambda>x. oid x = oid d') col = Some d" by simp
  from find_reemplazar[OF this] o' have "find (\<lambda>x. oid x = i) (reemplazar d' col) = Some d'"
    by simp
  with ci c have "findById env i col' = Hallado (Some d')" by (simp add: findById_eq)
  with r p show ?thesis by blast
qed

theorem update_never_changes_owner_witness:
  "propietario (casa []) = ''u1''
   \<and> updateAirbnb entorno_ej ana ''a1'' [(''propietario'', JStr ''u2'')] [casa []]
     = (Inr (Some casa_intacta), [casa_intacta])
   \<and> propietario casa_intacta = ''u1''
   \<and> findById entorno_ej ''a1'' [casa_intacta] = Hallado (Some casa_intacta)
   \<and> updateAirbnb entorno_ej ana ''a1'' [(''nombre'', JStr ''Casa Azul'')] [casa []]
     = (Inr (Some casa_azul), [casa_azul])
   \<and> propietario casa_azul = ''u1''"
proof -
  have o: "propietario (casa []) = ''u1''" by (simp add: casa_def)
  have a: "findById entorno_ej ''a1'' [casa []] = Hallado (Some (casa []))"
    by code_simp
  have b: "updateAirbnb entorno_ej ana ''a1'' [(''propietario'', JStr ''u2'')] [casa []]
             = (Inr (Some casa_intacta), [casa_intacta])"
    by code_simp
  have c: "updateAirbnb entorno_ej ana ''a1'' [(''nombre'', JStr ''Casa Azul'')] [casa []]
             = (Inr (Some casa_azul), [casa_azul])"
    by code_simp
  from update_never_changes_owner[OF a b]
  have 1: "propietario casa_intacta = propietario (casa [])"
    and 2: "findById entorno_ej ''a1'' [casa_intacta] = Hallado (Some casa_intacta)" by auto
  from update_never_changes_owner[OF a c]
  have 3: "propietario casa_azul = propietario (casa [])" by auto
  from o b c 1 2 3 show ?thesis by simp
qed

subsection \<open>toggle against update\<close>

text \<open>
  C3.  For every stored record: a caller who fails the toggle route's privileged-identity
  test -- the owner included -- gets 403 from toggleActive and the collection is
  unchanged; the owner's update of the same record is never answered 403 and succeeds
  whenever the store accepts the patch; and for a caller who passes the test,
  toggleActive stores and returns the record with the flag flipped and, under
  \<open>ultimaModificacion\<close>, the stamp made of the caller's id, the time of the call, the
  action (\<open>bloqueado\<close> for a record that was active, \<open>activado\<close> otherwise) and the
  reason (when the store accepts it); nothing else of the record changes.
\<close>

theorem toggle_status_requires_super_admin:
  assumes "findById env i col = Hallado (Some d)"
  shows "(\<not> isSuperAdmin_toggle t u \<longrightarrow>
            toggle_status t env u i col = (Inl (403, SinPermiso), col))
       \<and> (propietario d = uid u \<longrightarrow>
            fst (updateAirbnb env u i body col) \<noteq> Inl (403, SinPermiso))
       \<and> (propietario d = uid u \<longrightarrow> aplicar env (updateData env u body) d = Some d'
            \<longrightarrow> valida env d'
            \<longrightarrow> updateAirbnb env u i body col = (Inr (Some d'), reemplazar d' col))
       \<and> (isSuperAdmin_toggle t u \<longrightarrow> valida env (conmutado env u d) \<longrightarrow>
            (\<exists>h. toggle_status t env u i col = (Inr h, reemplazar h col)
                 \<and> activo h = (\<not> activo d)
                 \<and> map_of (campos h) ''ultimaModificacion''
                     = Some (JObj [(''usuario'', JStr (uid u)),
                                   (''fecha'', JNum (ahora env)),
                                   (''accion'', JStr (if activo d then ''bloqueado''
                                                      else ''activado'')),
                                   (''motivo'',
                                    JStr ''Cambio de estado por super administrador'')])
                 \<and> (\<forall>k. k \<noteq> ''ultimaModificacion''
                        \<longrightarrow> map_of (campos h) k = map_of (campos d) k)
                 \<and> oid h = oid d \<and> propietario h = propietario d
                 \<and> imagenes h = imagenes d))"
proof (intro conjI impI)
  assume "\<not> isSuperAdmin_toggle t u"
  then show "toggle_status t env u i col = (Inl (403, SinPermiso), col)"
    by (simp add: toggle_status_def)
next
  assume "propietario d = uid u"
  with assms show "fst (updateAirbnb env u i body col) \<noteq> Inl (403, SinPermiso)"
    by (auto simp: updateAirbnb_def split: consulta.splits prod.splits)
next
  assume "propietario d = uid u" "aplicar env (updateData env u body) d = Some d'" "valida env d'"
  with assms show "updateAirbnb env u i body col = (Inr (Some d'), reemplazar d' col)"
    by (simp add: updateAirbnb_exito)
next
  let ?h = "conmutado env u d"
  let ?sello = "JObj [(''usuario'', JStr (uid u)),
                      (''fecha'', JNum (ahora env)),
                      (''accion'', JStr (if activo d then ''bloqueado'' else ''activado'')),
                      (''motivo'', JStr ''Cambio de estado por super administrador'')]"
  assume el: "isSuperAdmin_toggle t u" and ok: "valida env ?h"
  have s: "auditoria_toggle env u (\<not> activo d) = ?sello"
    by (simp add: auditoria_toggle_def)
  have 1: "toggle_status t env u i col = (Inr ?h, reemplazar ?h col)"
    using assms el ok by (simp add: toggle_status_def save_def conmutado_def Let_def s)
  have 2: "activo ?h = (\<not> activo d)" by (simp add: conmutado_def)
  have 3: "map_of (campos ?h) ''ultimaModificacion'' = Some ?sello"
    by (simp add: conmutado_def AList.update_conv')
  have 4: "\<forall>k. k \<noteq> ''ultimaModificacion'' \<longrightarrow> map_of (campos ?h) k = map_of (campos d) k"
    by (simp add: conmutado_def AList.update_conv')
  have 5: "oid ?h = oid d \<and> propietario ?h = propietario d \<and> imagenes ?h = imagenes d"
    by (simp add: conmutado_def)
  from 1 2 3 4 5
  show "\<exists>h. toggle_status t env u i col = (Inr h, reemplazar h col)
            \<and> activo h = (\<not> activo d)
            \<and> map_of (campos h) ''ultimaModificacion'' = Some ?sello
            \<and> (\<forall>k. k \<noteq> ''ultimaModificacion''
                   \<longrightarrow> map_of (campos h) k = map_of (campos d) k)
            \<and> oid h = oid d \<and> propietario h = propietario d
            \<and> imagenes h = imagenes d"
    by blast
qed

theorem toggle_status_requires_super_admin_witness:
  "toggle_status Airbnb entorno_ej ana ''a1'' [casa []] = (Inl (403, SinPermiso), [casa []])
   \<and> updateAirbnb entorno_ej ana ''a1'' [(''nombre'', JStr ''Casa Azul'')] [casa []]
       = (Inr (Some casa_azul), [casa_azul])
   \<and> toggle_status Airbnb entorno_ej direccion ''a1'' [casa []]
       = (Inr casa_bloqueada, [casa_bloqueada])
   \<and> activo (casa []) \<and> \<not> activo casa_bloqueada
   \<and> map_of (campos casa_bloqueada) ''ultimaModificacion''
       = Some (JObj [(''usuario'', JStr ''u0''), (''fecha'', JNum 1000),
                     (''accion'', JStr ''bloqueado''),
                     (''motivo'', JStr ''Cambio de estado por super administrador'')])
   \<and> toggle_status Airbnb entorno_ej soler ''a1'' [casa_bloqueada]
       = (Inr casa_reactivada, [casa_reactivada])
   \<and> activo casa_reactivada
   \<and> map_of (campos casa_reactivada) ''ultimaModificacion''
       = Some (JObj [(''usuario'', JStr ''u9''), (''fecha'', JNum 1000),
                     (''accion'', JStr ''activado''),
                     (''motivo'', JStr ''Cambio de estado por super administrador'')])"
proof -
  have f: "findById entorno_ej ''a1'' [casa []] = Hallado (Some (casa []))" by code_simp
  have g: "findById entorno_ej ''a1'' [casa_bloqueada] = Hallado (Some casa_bloqueada)"
    by code_simp
  have h1: "\<not> isSuperAdmin_toggle Airbnb ana" by code_simp
  have h2: "propietario (casa []) = uid ana" by code_simp
  have h3: "aplicar entorno_ej (updateData entorno_ej ana [(''nombre'', JStr ''Casa Azul'')]) (casa [])
              = Some casa_azul" by code_simp
  have h4: "valida entorno_ej casa_azul" by code_simp
  have h5: "isSuperAdmin_toggle Airbnb direccion" by code_simp
  have h6: "valida entorno_ej (conmutado entorno_ej direccion (casa []))" by code_simp
  have h7: "isSuperAdmin_toggle Airbnb soler" by code_simp
  have h8: "valida entorno_ej (conmutado entorno_ej soler casa_bloqueada)" by code_simp
  have r1: "reemplazar casa_azul [casa []] = [casa_azul]" by code_simp
  have e1: "toggle_status Airbnb entorno_ej direccion ''a1'' [casa []]
              = (Inr casa_bloqueada, [casa_bloqueada])" by code_simp
  have e2: "toggle_status Airbnb entorno_ej soler ''a1'' [casa_bloqueada]
              = (Inr casa_reactivada, [casa_reactivada])" by code_simp
  have a: "activo (casa [])" "activo casa_bloqueada = False" "uid direccion = ''u0''"
    "uid soler = ''u9''" "ahora entorno_ej = 1000"
    by code_simp+
  note A = toggle_status_requires_super_admin
             [where t = Airbnb and u = ana, OF f, THEN conjunct1, rule_format, OF h1]
  note B = toggle_status_requires_super_admin
             [where u = ana and body = "[(''nombre'', JStr ''Casa Azul'')]" and d' = casa_azul,
              OF f, THEN conjunct2, THEN conjunct2, THEN conjunct1, rule_format, OF h2 h3 h4]
  note C = toggle_status_requires_super_admin
             [where t = Airbnb and u = direccion, OF f, THEN conjunct2, THEN conjunct2,
              THEN conjunct2, rule_format, OF h5 h6]
  note D = toggle_status_requires_super_admin
             [where t = Airbnb and u = soler, OF g, THEN conjunct2, THEN conjunct2,
              THEN conjunct2, rule_format, OF h7 h8]
  from C e1 a have c: "\<not> activo casa_bloqueada"
    "map_of (campos casa_bloqueada) ''ultimaModificacion''
       = Some (JObj [(''usuario'', JStr ''u0''), (''fecha'', JNum 1000),
                     (''accion'', JStr ''bloqueado''),
                     (''motivo'', JStr ''Cambio de estado por super administrador'')])"
    by auto
  from D e2 a have d: "activo casa_reactivada"
    "map_of (campos casa_reactivada) ''ultimaModificacion''
       = Some (JObj [(''usuario'', JStr ''u9''), (''fecha'', JNum 1000),
                     (''accion'', JStr ''activado''),
                     (''motivo'', JStr ''Cambio de estado por super administrador'')])"
    by auto
  from A B c d e1 e2 a(1) show ?thesis by (simp add: r1)
qed

subsection \<open>soft delete against the public listing\<close>

lemma set_sort_desc: "set (sort_desc clave ds) = set ds"
  by (simp add: sort_desc_def)

lemma getAllAirbnb_Inr:
  assumes "getAllAirbnb env usr q col = Inr ds"
  shows "set ds = {x \<in> set col. list_all (\<lambda>c. cumple env c x) (filters usr q)}"
  using assms
  by (auto simp: getAllAirbnb_def find_docs_def set_sort_desc split: if_splits)

lemma filters_no_elevado:
  assumes "\<forall>v. usr = Some v \<longrightarrow> \<not> isSuperAdmin_controller v"
  shows "\<exists>resto. filters usr q = PorActivo True # resto"
  using assms by (cases usr) (simp_all add: filters_def)

lemma filters_sin_filtros:
  assumes "\<forall>v. usr = Some v \<longrightarrow> \<not> isSuperAdmin_controller v"
  shows "filters usr sin_filtros = [PorActivo True]"
  using assms by (cases usr) (simp_all add: filters_def sin_filtros_def cond_si_def)

lemma filters_elevado: "isSuperAdmin_controller v \<Longrightarrow> filters (Some v) q = []"
  by (simp add: filters_def)

text \<open>
  What soft delete does and what the routed listing shows afterwards.  When the owner
  soft-deletes a stored record and the store accepts the save: the call succeeds, the
  collection keeps its size and now holds the record with \<open>activo = False\<close>; and no
  listing answered by the route, whoever the caller, contains a record with that id.
\<close>

lemma soft_delete_hidden_from_routed_list:
  assumes "findById env i col = Hallado (Some d)"
    and "propietario d = uid u"
    and "valida env (d\<lparr>activo := False\<rparr>)"
  shows "deleteAirbnb env u i col = (Inr (), reemplazar (d\<lparr>activo := False\<rparr>) col)
       \<and> length (reemplazar (d\<lparr>activo := False\<rparr>) col) = length col
       \<and> d\<lparr>activo := False\<rparr> \<in> set (reemplazar (d\<lparr>activo := False\<rparr>) col)
       \<and> (\<forall>llamante q ds.
             ruta_listado env llamante q (reemplazar (d\<lparr>activo := False\<rparr>) col) = Inr ds
             \<longrightarrow> i \<notin> oid ` set ds)
       \<and> (\<forall>llamante. \<exists>ds.
             ruta_listado env llamante sin_filtros (reemplazar (d\<lparr>activo := False\<rparr>) col)
               = Inr ds)"
proof -
  let ?d = "d\<lparr>activo := False\<rparr>"
  let ?col = "reemplazar ?d col"
  from findById_Some[OF assms(1)] have m: "d \<in> set col" and o: "oid d = i" by auto
  have ne: "\<forall>v. (None :: usuario option) = Some v \<longrightarrow> \<not> isSuperAdmin_controller v" by simp
  have 1: "deleteAirbnb env u i col = (Inr (), ?col)"
    using assms by (simp add: deleteAirbnb_def save_def)
  have 2: "length ?col = length col" by (rule length_reemplazar)
  have 3: "?d \<in> set ?col" using m by (simp add: reemplazar_miembro)
  have 4: "i \<notin> oid ` set ds"
    if g: "ruta_listado env llamante q ?col = Inr ds" for llamante q ds
  proof
    assume "i \<in> oid ` set ds"
    then obtain x where x: "x \<in> set ds" and ox: "oid x = i" by auto
    from filters_no_elevado[OF ne] obtain resto where f: "filters None q = PorActivo True # resto"
      by blast
    from g have "getAllAirbnb env None q ?col = Inr ds" by (simp add: ruta_listado_def)
    from getAllAirbnb_Inr[OF this] x f have xc: "x \<in> set ?col" and xa: "activo x = True" by auto
    from reemplazar_mismo[OF xc] ox o have "x = ?d" by simp
    with xa show False by simp
  qed
  have 5: "\<exists>ds. ruta_listado env llamante sin_filtros ?col = Inr ds" for llamante
    by (simp add: ruta_listado_def getAllAirbnb_def find_docs_def filters_sin_filtros[OF ne])
  from 1 2 3 4 5 show ?thesis by blast
qed

text \<open>
  C8.  After a soft delete, the list call of an elevated caller is to include the
  record with \<open>active = false\<close>.  The code breaks this: the owner's soft delete
  leaves the record stored and inactive, but the list the super administrator then
  requests is answered without it, because the public route hands the handler no
  caller.  The handler's own branch for the super administrator, which would list the
  record, is never reached through the route.
\<close>

theorem super_admin_list_excludes_soft_deleted:
  "deleteAirbnb entorno_ej ana ''a1'' [casa [''x.jpg'']] = (Inr (), [casa_inactiva])
   \<and> \<not> activo casa_inactiva
   \<and> isSuperAdmin_controller direccion
   \<and> ruta_listado entorno_ej (Some direccion) sin_filtros [casa_inactiva] = Inr []
   \<and> getAllAirbnb entorno_ej (Some direccion) sin_filtros [casa_inactiva] = Inr [casa_inactiva]"
  by code_simp

end
